theory Spec2Isabelle
  imports Main "HOL-Library.State_Monad"
begin

section \<open>Python dictionaries with insertion order\<close>

text \<open>
  The two lookup tables of \<^verbatim>\<open>climate.py\<close> are Python dictionaries. The second one is
  built by a comprehension that walks the items of the first in insertion order, a later
  item overwriting an earlier one with the same key. A dictionary is therefore an
  association list in insertion order with at most one pair for each key.
\<close>

type_synonym ('k, 'v) dict = "('k \<times> 'v) list"

text \<open>\<^verbatim>\<open>d[k] = v\<close>: an existing key keeps its place and takes the new value, a new key
  goes to the end.\<close>

fun dict_set :: "('k, 'v) dict \<Rightarrow> 'k \<Rightarrow> 'v \<Rightarrow> ('k, 'v) dict" where
  "dict_set [] k v = [(k, v)]"
| "dict_set ((k', v') # d) k v =
     (if k' = k then (k, v) # d else (k', v') # dict_set d k v)"

text \<open>A dictionary display \<^verbatim>\<open>{k1: v1, ...}\<close> and a dictionary comprehension both store
  their pairs one after the other, from left to right.\<close>

definition dict_build :: "('k \<times> 'v) list \<Rightarrow> ('k, 'v) dict" where
  "dict_build kvs = foldl (\<lambda>d (k, v). dict_set d k v) [] kvs"

definition dict_items :: "('k, 'v) dict \<Rightarrow> ('k \<times> 'v) list" where
  "dict_items d = d"

text \<open>\<^verbatim>\<open>d.get(k)\<close>: the value, or Python's \<^verbatim>\<open>None\<close>.\<close>

fun dict_get :: "('k, 'v) dict \<Rightarrow> 'k \<Rightarrow> 'v option" where
  "dict_get [] k = None"
| "dict_get ((k', v') # d) k = (if k' = k then Some v' else dict_get d k)"

text \<open>\<^verbatim>\<open>k in d\<close>.\<close>

fun dict_contains :: "('k, 'v) dict \<Rightarrow> 'k \<Rightarrow> bool" where
  "dict_contains [] k = False"
| "dict_contains ((k', v') # d) k = (k' = k \<or> dict_contains d k)"

datatype py_error = KeyError | ValueError string

text \<open>\<^verbatim>\<open>d[k]\<close>: the value, or \<^verbatim>\<open>KeyError\<close>.\<close>

definition dict_getitem :: "('k, 'v) dict \<Rightarrow> 'k \<Rightarrow> py_error + 'v" where
  "dict_getitem d k = (case dict_get d k of None \<Rightarrow> Inl KeyError | Some v \<Rightarrow> Inr v)"

section \<open>Names imported by \<^verbatim>\<open>climate.py\<close>\<close>

text \<open>
  Modelled from the spec: the enumeration \<^verbatim>\<open>ACMode\<close> of \<^verbatim>\<open>wideq/ac.py\<close> is not among
  the sources. \<^verbatim>\<open>climate.py\<close> uses six of its members, and only through \<^verbatim>\<open>.name\<close>,
  which for a member of a Python enumeration is the identifier it is declared under.
\<close>

datatype ACMode = AI | HEAT | DRY | COOL | FAN | ACO

fun ACMode_name :: "ACMode \<Rightarrow> string" where
  "ACMode_name AI = ''AI''"
| "ACMode_name HEAT = ''HEAT''"
| "ACMode_name DRY = ''DRY''"
| "ACMode_name COOL = ''COOL''"
| "ACMode_name FAN = ''FAN''"
| "ACMode_name ACO = ''ACO''"

text \<open>
  Modelled from the spec: the HVAC mode constants of the platform
  (\<^verbatim>\<open>homeassistant.components.climate.const\<close>) are not among the sources. The spec lists the
  six modes of the table as auto, heat, dry, cool, fan-only and heat-cool; the constants
  are the strings the platform gives these modes (it writes the last two with an
  underscore), and \<^verbatim>\<open>HVAC_MODE_OFF\<close> is the seventh mode of the platform.
\<close>

definition HVAC_MODE_OFF :: string where "HVAC_MODE_OFF = ''off''"
definition HVAC_MODE_AUTO :: string where "HVAC_MODE_AUTO = ''auto''"
definition HVAC_MODE_HEAT :: string where "HVAC_MODE_HEAT = ''heat''"
definition HVAC_MODE_DRY :: string where "HVAC_MODE_DRY = ''dry''"
definition HVAC_MODE_COOL :: string where "HVAC_MODE_COOL = ''cool''"
definition HVAC_MODE_FAN_ONLY :: string where "HVAC_MODE_FAN_ONLY = ''fan_only''"
definition HVAC_MODE_HEAT_COOL :: string where "HVAC_MODE_HEAT_COOL = ''heat_cool''"

section \<open>The two lookup tables\<close>

definition HVAC_MODE_LOOKUP :: "(string, string) dict" where
  "HVAC_MODE_LOOKUP = dict_build
     [(ACMode_name AI, HVAC_MODE_AUTO),
      (ACMode_name HEAT, HVAC_MODE_HEAT),
      (ACMode_name DRY, HVAC_MODE_DRY),
      (ACMode_name COOL, HVAC_MODE_COOL),
      (ACMode_name FAN, HVAC_MODE_FAN_ONLY),
      (ACMode_name ACO, HVAC_MODE_HEAT_COOL)]"

definition HVAC_MODE_REVERSE_LOOKUP :: "(string, string) dict" where
  "HVAC_MODE_REVERSE_LOOKUP =
     dict_build [(v, k). (k, v) \<leftarrow> dict_items HVAC_MODE_LOOKUP]"

section \<open>The objects the adapter talks to\<close>

text \<open>
  The adapter keeps references to two objects it does not own: the \<^verbatim>\<open>LGEDevice\<close> wrapper
  (\<^verbatim>\<open>self._api\<close>) and the \<^verbatim>\<open>AirConditionerDevice\<close> (\<^verbatim>\<open>self._device\<close>). Both change behind
  the adapter's back when the device is polled, so they live in a store and the adapter
  holds their addresses. Temperatures are only passed along, never computed with, so their
  type \<open>'t\<close> is left open.
\<close>

type_synonym ref = nat

text \<open>\<^verbatim>\<open>self._api.state\<close>, the last status the device reported.\<close>

record 't ACStatus =
  is_on :: bool
  operation_mode :: "string option"
  current_temp :: 't
  target_temp :: 't
  fan_speed :: string

record 't LGEDevice =
  state :: "'t ACStatus"
  api_available :: bool
  api_unique_id :: string
  api_name :: string
  api_device_info :: string

record 't AirConditionerDevice =
  op_modes :: "string list"
  fan_speeds :: "string list"
  target_temperature_min :: "'t option"
  target_temperature_max :: "'t option"
  device_target_temperature_step :: 't

record 't world =
  lge_devices :: "ref \<Rightarrow> 't LGEDevice"
  ac_devices :: "ref \<Rightarrow> 't AirConditionerDevice"

text \<open>The device is polled and reports a new status: the \<^verbatim>\<open>LGEDevice\<close> at address
  \<open>r\<close> then holds that status. The adapter has no part in this.\<close>

definition report_status :: "'t world \<Rightarrow> ref \<Rightarrow> 't ACStatus \<Rightarrow> 't world" where
  "report_status w r s = w\<lparr>lge_devices := (lge_devices w)(r := (lge_devices w r)\<lparr>state := s\<rparr>)\<rparr>"

text \<open>The methods of \<^verbatim>\<open>AirConditionerDevice\<close> the adapter calls. What they do to the
  device is outside this file; the model records which calls are issued, in order.\<close>

datatype 't device_call =
    Call_power bool
  | Call_set_op_mode string
  | Call_set_target_temp 't
  | Call_set_fan_speed string

text \<open>The outcome of a coroutine of the adapter: the calls it issued on
  \<^verbatim>\<open>self._device\<close> up to its end, and the exception that ended it, if one did.\<close>

type_synonym 't outcome = "'t device_call list \<times> py_error option"

section \<open>The adapter\<close>

text \<open>The attributes \<^verbatim>\<open>_api\<close>, \<^verbatim>\<open>_device\<close> and \<^verbatim>\<open>_name\<close> of an \<^verbatim>\<open>LGEACClimate\<close>.\<close>

record LGEACClimate =
  self_api :: ref
  self_device :: ref
  self_name :: string

text \<open>\<^verbatim>\<open>LGEACClimate.__init__\<close>, with \<^verbatim>\<open>LGEClimate.__init__\<close> inlined.\<close>

definition LGEACClimate_init :: "'t world \<Rightarrow> ref \<Rightarrow> ref \<Rightarrow> LGEACClimate" where
  "LGEACClimate_init w device ac_device =
     \<lparr>self_api = device,
      self_device = ac_device,
      self_name = api_name (lge_devices w device)\<rparr>"

definition api_state :: "'t world \<Rightarrow> LGEACClimate \<Rightarrow> 't ACStatus" where
  "api_state w self = state (lge_devices w (self_api self))"

definition device_info :: "'t world \<Rightarrow> LGEACClimate \<Rightarrow> string" where
  "device_info w self = api_device_info (lge_devices w (self_api self))"

definition available :: "'t world \<Rightarrow> LGEACClimate \<Rightarrow> bool" where
  "available w self = api_available (lge_devices w (self_api self))"

definition unique_id :: "'t world \<Rightarrow> LGEACClimate \<Rightarrow> string" where
  "unique_id w self = api_unique_id (lge_devices w (self_api self)) @ ''-AC''"

definition name :: "'t world \<Rightarrow> LGEACClimate \<Rightarrow> string" where
  "name w self = self_name self"

definition target_temperature_step :: "'t world \<Rightarrow> LGEACClimate \<Rightarrow> 't" where
  "target_temperature_step w self =
     device_target_temperature_step (ac_devices w (self_device self))"

definition hvac_mode :: "'t world \<Rightarrow> LGEACClimate \<Rightarrow> string option" where
  "hvac_mode w self =
     (let mode = operation_mode (api_state w self) in
      if \<not> is_on (api_state w self) \<or> mode = None then Some HVAC_MODE_OFF
      else case mode of Some m \<Rightarrow> dict_get HVAC_MODE_LOOKUP m | None \<Rightarrow> None)"

definition async_set_hvac_mode ::
  "'t world \<Rightarrow> LGEACClimate \<Rightarrow> string \<Rightarrow> 't outcome" where
  "async_set_hvac_mode w self mode =
     (if mode = HVAC_MODE_OFF then ([Call_power False], None)
      else case dict_get HVAC_MODE_REVERSE_LOOKUP mode of
        None \<Rightarrow> ([], Some (ValueError (''Invalid hvac_mode ['' @ mode @ '']'')))
      | Some operation_mode' \<Rightarrow>
          ((if hvac_mode w self = Some HVAC_MODE_OFF then [Call_power True] else [])
             @ [Call_set_op_mode operation_mode'],
           None))"

definition hvac_modes :: "'t world \<Rightarrow> LGEACClimate \<Rightarrow> string option list" where
  "hvac_modes w self =
     [Some HVAC_MODE_OFF] @
     [dict_get HVAC_MODE_LOOKUP mode.
        mode \<leftarrow> op_modes (ac_devices w (self_device self)),
        dict_contains HVAC_MODE_LOOKUP mode]"

definition current_temperature :: "'t world \<Rightarrow> LGEACClimate \<Rightarrow> 't" where
  "current_temperature w self = current_temp (api_state w self)"

definition target_temperature :: "'t world \<Rightarrow> LGEACClimate \<Rightarrow> 't" where
  "target_temperature w self = target_temp (api_state w self)"

definition async_set_temperature ::
  "'t world \<Rightarrow> LGEACClimate \<Rightarrow> (string \<rightharpoonup> 't) \<Rightarrow> 't outcome" where
  "async_set_temperature w self kwargs =
     ([Call_set_target_temp
         (case kwargs ''temperature'' of
            Some t \<Rightarrow> t
          | None \<Rightarrow> target_temperature w self)],
      None)"

definition fan_mode :: "'t world \<Rightarrow> LGEACClimate \<Rightarrow> string" where
  "fan_mode w self = fan_speed (api_state w self)"

definition async_set_fan_mode ::
  "'t world \<Rightarrow> LGEACClimate \<Rightarrow> string \<Rightarrow> 't outcome" where
  "async_set_fan_mode w self fan_mode' = ([Call_set_fan_speed fan_mode'], None)"

definition fan_modes :: "'t world \<Rightarrow> LGEACClimate \<Rightarrow> string list" where
  "fan_modes w self = fan_speeds (ac_devices w (self_device self))"

definition async_turn_on :: "'t world \<Rightarrow> LGEACClimate \<Rightarrow> 't outcome" where
  "async_turn_on w self = ([Call_power True], None)"

definition async_turn_off :: "'t world \<Rightarrow> LGEACClimate \<Rightarrow> 't outcome" where
  "async_turn_off w self = ([Call_power False], None)"

text \<open>\<^verbatim>\<open>DEFAULT_MIN_TEMP\<close> and \<^verbatim>\<open>DEFAULT_MAX_TEMP\<close> are constants of the platform, not
  among the sources: the two readers take them as their first argument.\<close>

definition min_temp :: "'t \<Rightarrow> 't world \<Rightarrow> LGEACClimate \<Rightarrow> 't" where
  "min_temp DEFAULT_MIN_TEMP w self =
     (let min_value = target_temperature_min (ac_devices w (self_device self)) in
      case min_value of Some t \<Rightarrow> t | None \<Rightarrow> DEFAULT_MIN_TEMP)"

definition max_temp :: "'t \<Rightarrow> 't world \<Rightarrow> LGEACClimate \<Rightarrow> 't" where
  "max_temp DEFAULT_MAX_TEMP w self =
     (let max_value = target_temperature_max (ac_devices w (self_device self)) in
      case max_value of Some t \<Rightarrow> t | None \<Rightarrow> DEFAULT_MAX_TEMP)"

section \<open>The getters as methods on the adapter object\<close>

text \<open>
  A property getter is a method: it receives the adapter object and could assign to its
  attributes, as \<^verbatim>\<open>__init__\<close> does. Here every getter is written once more, statement by
  statement, as a computation on the adapter's attributes, which are the state. An
  attribute access \<^verbatim>\<open>self._x\<close> is a \<open>getattr\<close> step and an assignment
  \<^verbatim>\<open>self._x = v\<close> a \<open>setattr\<close> step. The objects behind \<^verbatim>\<open>_api\<close> and \<^verbatim>\<open>_device\<close> are
  read from the world \<open>w\<close>.
\<close>

definition getattr_api :: "(LGEACClimate, ref) state" where
  "getattr_api = do { self \<leftarrow> State_Monad.get; State_Monad.return (self_api self) }"

definition getattr_device :: "(LGEACClimate, ref) state" where
  "getattr_device = do { self \<leftarrow> State_Monad.get; State_Monad.return (self_device self) }"

definition getattr_name :: "(LGEACClimate, string) state" where
  "getattr_name = do { self \<leftarrow> State_Monad.get; State_Monad.return (self_name self) }"

definition setattr_api :: "ref \<Rightarrow> (LGEACClimate, unit) state" where
  "setattr_api v = State_Monad.update (\<lambda>self. self\<lparr>self_api := v\<rparr>)"

definition setattr_device :: "ref \<Rightarrow> (LGEACClimate, unit) state" where
  "setattr_device v = State_Monad.update (\<lambda>self. self\<lparr>self_device := v\<rparr>)"

definition setattr_name :: "string \<Rightarrow> (LGEACClimate, unit) state" where
  "setattr_name v = State_Monad.update (\<lambda>self. self\<lparr>self_name := v\<rparr>)"

text \<open>\<^verbatim>\<open>LGEACClimate.__init__\<close>: the two assignments of \<^verbatim>\<open>LGEClimate.__init__\<close>, then
  its own.\<close>

definition init_method :: "'t world \<Rightarrow> ref \<Rightarrow> ref \<Rightarrow> (LGEACClimate, unit) state" where
  "init_method w device ac_device = do {
     setattr_api device;
     setattr_name (api_name (lge_devices w device));
     setattr_device ac_device
   }"

definition available_fget :: "'t world \<Rightarrow> (LGEACClimate, bool) state" where
  "available_fget w = do {
     api \<leftarrow> getattr_api;
     State_Monad.return (api_available (lge_devices w api))
   }"

definition unique_id_fget :: "'t world \<Rightarrow> (LGEACClimate, string) state" where
  "unique_id_fget w = do {
     api \<leftarrow> getattr_api;
     State_Monad.return (api_unique_id (lge_devices w api) @ ''-AC'')
   }"

definition name_fget :: "'t world \<Rightarrow> (LGEACClimate, string) state" where
  "name_fget w = do { n \<leftarrow> getattr_name; State_Monad.return n }"

definition hvac_mode_fget :: "'t world \<Rightarrow> (LGEACClimate, string option) state" where
  "hvac_mode_fget w = do {
     api \<leftarrow> getattr_api;
     let mode = operation_mode (state (lge_devices w api));
     api' \<leftarrow> getattr_api;
     if \<not> is_on (state (lge_devices w api')) \<or> mode = None
     then State_Monad.return (Some HVAC_MODE_OFF)
     else State_Monad.return
       (case mode of Some m \<Rightarrow> dict_get HVAC_MODE_LOOKUP m | None \<Rightarrow> None)
   }"

definition hvac_modes_fget :: "'t world \<Rightarrow> (LGEACClimate, string option list) state" where
  "hvac_modes_fget w = do {
     dev \<leftarrow> getattr_device;
     State_Monad.return
       ([Some HVAC_MODE_OFF] @
        [dict_get HVAC_MODE_LOOKUP mode.
           mode \<leftarrow> op_modes (ac_devices w dev), dict_contains HVAC_MODE_LOOKUP mode])
   }"

definition current_temperature_fget :: "'t world \<Rightarrow> (LGEACClimate, 't) state" where
  "current_temperature_fget w = do {
     api \<leftarrow> getattr_api;
     State_Monad.return (current_temp (state (lge_devices w api)))
   }"

definition target_temperature_fget :: "'t world \<Rightarrow> (LGEACClimate, 't) state" where
  "target_temperature_fget w = do {
     api \<leftarrow> getattr_api;
     State_Monad.return (target_temp (state (lge_devices w api)))
   }"

definition fan_mode_fget :: "'t world \<Rightarrow> (LGEACClimate, string) state" where
  "fan_mode_fget w = do {
     api \<leftarrow> getattr_api;
     State_Monad.return (fan_speed (state (lge_devices w api)))
   }"

definition fan_modes_fget :: "'t world \<Rightarrow> (LGEACClimate, string list) state" where
  "fan_modes_fget w = do {
     dev \<leftarrow> getattr_device;
     State_Monad.return (fan_speeds (ac_devices w dev))
   }"

definition min_temp_fget :: "'t \<Rightarrow> 't world \<Rightarrow> (LGEACClimate, 't) state" where
  "min_temp_fget DEFAULT_MIN_TEMP w = do {
     dev \<leftarrow> getattr_device;
     let min_value = target_temperature_min (ac_devices w dev);
     case min_value of
       Some t \<Rightarrow> State_Monad.return t
     | None \<Rightarrow> State_Monad.return DEFAULT_MIN_TEMP
   }"

definition max_temp_fget :: "'t \<Rightarrow> 't world \<Rightarrow> (LGEACClimate, 't) state" where
  "max_temp_fget DEFAULT_MAX_TEMP w = do {
     dev \<leftarrow> getattr_device;
     let max_value = target_temperature_max (ac_devices w dev);
     case max_value of
       Some t \<Rightarrow> State_Monad.return t
     | None \<Rightarrow> State_Monad.return DEFAULT_MAX_TEMP
   }"

section \<open>A sample installation\<close>

text \<open>One air conditioner, switched on and cooling, with whole degrees as temperatures.
  It reports a mode, \<^verbatim>\<open>AIRCLEAN\<close>, among its supported ones that the table does not
  have.\<close>

definition example_status :: "int ACStatus" where
  "example_status =
     \<lparr>is_on = True, operation_mode = Some ''COOL'', current_temp = 26, target_temp = 24,
      fan_speed = ''HIGH''\<rparr>"

definition example_world :: "int world" where
  "example_world =
     \<lparr>lge_devices = (\<lambda>_.
        \<lparr>state = example_status, api_available = True, api_unique_id = ''a1b2'',
         api_name = ''Bedroom'', api_device_info = ''AC''\<rparr>),
      ac_devices = (\<lambda>_.
        \<lparr>op_modes = [''COOL'', ''DRY'', ''AIRCLEAN''], fan_speeds = [''LOW'', ''HIGH''],
         target_temperature_min = Some 18, target_temperature_max = None,
         device_target_temperature_step = 1\<rparr>)\<rparr>"

definition example_self :: LGEACClimate where
  "example_self = LGEACClimate_init example_world 0 1"

section \<open>Facts about dictionaries and the two tables\<close>

lemmas hvac_mode_consts =
  HVAC_MODE_OFF_def HVAC_MODE_AUTO_def HVAC_MODE_HEAT_def HVAC_MODE_DRY_def
  HVAC_MODE_COOL_def HVAC_MODE_FAN_ONLY_def HVAC_MODE_HEAT_COOL_def

lemmas example_defs =
  example_status_def example_world_def example_self_def LGEACClimate_init_def api_state_def

lemma lookup_items:
  "HVAC_MODE_LOOKUP =
     [(''AI'', HVAC_MODE_AUTO), (''HEAT'', HVAC_MODE_HEAT), (''DRY'', HVAC_MODE_DRY),
      (''COOL'', HVAC_MODE_COOL), (''FAN'', HVAC_MODE_FAN_ONLY), (''ACO'', HVAC_MODE_HEAT_COOL)]"
  by (simp add: HVAC_MODE_LOOKUP_def dict_build_def)

lemma reverse_items:
  "HVAC_MODE_REVERSE_LOOKUP =
     [(HVAC_MODE_AUTO, ''AI''), (HVAC_MODE_HEAT, ''HEAT''), (HVAC_MODE_DRY, ''DRY''),
      (HVAC_MODE_COOL, ''COOL''), (HVAC_MODE_FAN_ONLY, ''FAN''), (HVAC_MODE_HEAT_COOL, ''ACO'')]"
  by (simp add: HVAC_MODE_REVERSE_LOOKUP_def lookup_items dict_items_def dict_build_def hvac_mode_consts)

lemma dict_get_Some_mem: "dict_get d k = Some v \<Longrightarrow> (k, v) \<in> set d"
  by (induction d) (auto split: if_splits)

lemma dict_get_distinct:
  "distinct (map fst d) \<Longrightarrow> (k, v) \<in> set d \<Longrightarrow> dict_get d k = Some v"
  by (induction d) (auto simp: rev_image_eqI)

lemma distinct_lookup_keys: "distinct (map fst HVAC_MODE_LOOKUP)"
  by (simp add: lookup_items)

lemma distinct_lookup_values: "distinct (map snd HVAC_MODE_LOOKUP)"
  by (simp add: lookup_items hvac_mode_consts)

lemma reverse_is_swap: "HVAC_MODE_REVERSE_LOOKUP = map (\<lambda>(k, v). (v, k)) HVAC_MODE_LOOKUP"
  by (simp add: reverse_items lookup_items)

lemma distinct_reverse_keys: "distinct (map fst HVAC_MODE_REVERSE_LOOKUP)"
  by (simp add: reverse_items hvac_mode_consts)

lemma reverse_mem: "(v, k) \<in> set HVAC_MODE_REVERSE_LOOKUP \<longleftrightarrow> (k, v) \<in> set HVAC_MODE_LOOKUP"
  unfolding reverse_is_swap by force

lemma lookup_get_iff:
  "dict_get HVAC_MODE_LOOKUP k = Some v \<longleftrightarrow> (k, v) \<in> set HVAC_MODE_LOOKUP"
proof
  assume "dict_get HVAC_MODE_LOOKUP k = Some v"
  then show "(k, v) \<in> set HVAC_MODE_LOOKUP" by (rule dict_get_Some_mem)
next
  assume "(k, v) \<in> set HVAC_MODE_LOOKUP"
  then show "dict_get HVAC_MODE_LOOKUP k = Some v"
    by (rule dict_get_distinct [OF distinct_lookup_keys])
qed

lemma reverse_get_iff:
  "dict_get HVAC_MODE_REVERSE_LOOKUP v = Some k \<longleftrightarrow> (k, v) \<in> set HVAC_MODE_LOOKUP"
proof
  assume "dict_get HVAC_MODE_REVERSE_LOOKUP v = Some k"
  then have "(v, k) \<in> set HVAC_MODE_REVERSE_LOOKUP" by (rule dict_get_Some_mem)
  then show "(k, v) \<in> set HVAC_MODE_LOOKUP" by (simp only: reverse_mem)
next
  assume "(k, v) \<in> set HVAC_MODE_LOOKUP"
  then have "(v, k) \<in> set HVAC_MODE_REVERSE_LOOKUP" by (simp only: reverse_mem)
  then show "dict_get HVAC_MODE_REVERSE_LOOKUP v = Some k"
    by (rule dict_get_distinct [OF distinct_reverse_keys])
qed

lemma lookup_None_iff:
  "dict_get HVAC_MODE_LOOKUP k = None \<longleftrightarrow> k \<notin> set [''AI'', ''HEAT'', ''DRY'', ''COOL'', ''FAN'', ''ACO'']"
  by (simp add: lookup_items)

lemma reverse_None_iff:
  "dict_get HVAC_MODE_REVERSE_LOOKUP m = None \<longleftrightarrow>
     m \<notin> set [HVAC_MODE_AUTO, HVAC_MODE_HEAT, HVAC_MODE_DRY, HVAC_MODE_COOL,
                HVAC_MODE_FAN_ONLY, HVAC_MODE_HEAT_COOL]"
  by (simp add: reverse_items)


lemma dict_contains_get: "dict_contains d k \<longleftrightarrow> dict_get d k \<noteq> None"
  by (induction d) auto

lemma dict_getitem_Inr: "dict_getitem d k = Inr v \<longleftrightarrow> dict_get d k = Some v"
  by (simp add: dict_getitem_def split: option.splits)

subsection \<open>The adapter after a status report, and the sample installation\<close>

lemma api_state_report [simp]:
  "api_state (report_status w r s) self = (if self_api self = r then s else api_state w self)"
  by (simp add: api_state_def report_status_def)

lemma example_api [simp]: "self_api example_self = 0"
  by (simp add: example_self_def LGEACClimate_init_def)

lemma example_state [simp]: "api_state example_world example_self = example_status"
  by (simp add: example_defs)

lemma example_status_fields [simp]:
  "is_on example_status" "operation_mode example_status = Some ''COOL''"
  "current_temp example_status = 26" "target_temp example_status = 24"
  "fan_speed example_status = ''HIGH''"
  by (simp_all add: example_status_def)

lemma example_hvac_mode: "hvac_mode example_world example_self = Some ''cool''"
  by (simp add: hvac_mode_def lookup_items hvac_mode_consts)

lemma example_device [simp]: "self_device example_self = 1"
  by (simp add: example_self_def LGEACClimate_init_def)

section \<open>The lookup tables\<close>

text \<open>
  C1. \<^verbatim>\<open>HVAC_MODE_REVERSE_LOOKUP\<close> is the exact inverse of \<^verbatim>\<open>HVAC_MODE_LOOKUP\<close>: for
  every vendor mode name \<open>k\<close> in the forward table, looking up \<open>k\<close> and then looking the
  result up in the reverse table gives \<open>k\<close> back; for every platform mode \<open>v\<close> in the
  reverse table, looking up \<open>v\<close> and then looking the result up in the forward table
  gives \<open>v\<close> back; and the forward table is injective (no two keys share a value).
\<close>

theorem reverse_lookup_exact_inverse:
  "(dict_contains HVAC_MODE_LOOKUP k \<longrightarrow>
      (\<exists>v. dict_getitem HVAC_MODE_LOOKUP k = Inr v \<and>
           dict_getitem HVAC_MODE_REVERSE_LOOKUP v = Inr k)) \<and>
   (dict_contains HVAC_MODE_REVERSE_LOOKUP v \<longrightarrow>
      (\<exists>k. dict_getitem HVAC_MODE_REVERSE_LOOKUP v = Inr k \<and>
           dict_getitem HVAC_MODE_LOOKUP k = Inr v)) \<and>
   distinct (map snd (dict_items HVAC_MODE_LOOKUP))"
proof (intro conjI impI)
  assume "dict_contains HVAC_MODE_LOOKUP k"
  then obtain v where v: "dict_get HVAC_MODE_LOOKUP k = Some v"
    by (auto simp: dict_contains_get)
  then have "dict_get HVAC_MODE_REVERSE_LOOKUP v = Some k"
    by (simp only: lookup_get_iff reverse_get_iff)
  with v show "\<exists>v. dict_getitem HVAC_MODE_LOOKUP k = Inr v \<and>
      dict_getitem HVAC_MODE_REVERSE_LOOKUP v = Inr k"
    by (simp add: dict_getitem_Inr)
next
  assume "dict_contains HVAC_MODE_REVERSE_LOOKUP v"
  then obtain k where k: "dict_get HVAC_MODE_REVERSE_LOOKUP v = Some k"
    by (auto simp: dict_contains_get)
  then have "dict_get HVAC_MODE_LOOKUP k = Some v"
    by (simp only: lookup_get_iff reverse_get_iff)
  with k show "\<exists>k. dict_getitem HVAC_MODE_REVERSE_LOOKUP v = Inr k \<and>
      dict_getitem HVAC_MODE_LOOKUP k = Inr v"
    by (simp add: dict_getitem_Inr)
next
  show "distinct (map snd (dict_items HVAC_MODE_LOOKUP))"
    by (simp add: dict_items_def distinct_lookup_values)
qed

theorem reverse_lookup_exact_inverse_witness:
  "dict_contains HVAC_MODE_LOOKUP ''FAN'' \<and>
   dict_getitem HVAC_MODE_LOOKUP ''FAN'' = Inr ''fan_only'' \<and>
   dict_getitem HVAC_MODE_REVERSE_LOOKUP ''fan_only'' = Inr ''FAN'' \<and>
   dict_contains HVAC_MODE_REVERSE_LOOKUP ''heat_cool'' \<and>
   dict_getitem HVAC_MODE_REVERSE_LOOKUP ''heat_cool'' = Inr ''ACO'' \<and>
   dict_getitem HVAC_MODE_LOOKUP ''ACO'' = Inr ''heat_cool''"
  using reverse_lookup_exact_inverse [of "''FAN''" "''heat_cool''"]
  by (simp add: lookup_items reverse_items hvac_mode_consts dict_getitem_def)

text \<open>
  C2. The forward table has exactly six entries: it maps \<^verbatim>\<open>AI\<close>, \<^verbatim>\<open>HEAT\<close>, \<^verbatim>\<open>DRY\<close>,
  \<^verbatim>\<open>COOL\<close>, \<^verbatim>\<open>FAN\<close> and \<^verbatim>\<open>ACO\<close> to the platform constants for auto, heat, dry,
  cool, fan-only and heat-cool, in this order, and every other name has no entry.
\<close>

theorem lookup_six_entries:
  "dict_items HVAC_MODE_LOOKUP =
     [(''AI'', HVAC_MODE_AUTO), (''HEAT'', HVAC_MODE_HEAT), (''DRY'', HVAC_MODE_DRY),
      (''COOL'', HVAC_MODE_COOL), (''FAN'', HVAC_MODE_FAN_ONLY),
      (''ACO'', HVAC_MODE_HEAT_COOL)] \<and>
   length (dict_items HVAC_MODE_LOOKUP) = 6 \<and>
   dict_get HVAC_MODE_LOOKUP k =
     (if k = ''AI'' then Some HVAC_MODE_AUTO
      else if k = ''HEAT'' then Some HVAC_MODE_HEAT
      else if k = ''DRY'' then Some HVAC_MODE_DRY
      else if k = ''COOL'' then Some HVAC_MODE_COOL
      else if k = ''FAN'' then Some HVAC_MODE_FAN_ONLY
      else if k = ''ACO'' then Some HVAC_MODE_HEAT_COOL
      else None)"
  by (simp add: dict_items_def lookup_items eq_commute [of _ k])

section \<open>Reading and setting the HVAC mode\<close>

text \<open>
  C3. Mode translation round-trips through the adapter. For every platform mode \<open>m\<close>
  other than \<^verbatim>\<open>HVAC_MODE_OFF\<close> that is a key of the reverse table,
  \<open>async_set_hvac_mode\<close> ends without an exception and its last call is
  \<^verbatim>\<open>set_op_mode\<close> with the vendor name \<open>k\<close> the reverse table gives for \<open>m\<close> (the only
  call before it, if any, is \<^verbatim>\<open>power(True)\<close>); and in every world \<open>w'\<close> in which the
  device is on and reports \<open>k\<close> as its operation mode, \<open>hvac_mode\<close> returns \<open>m\<close>.
\<close>

theorem mode_round_trip:
  assumes "m \<noteq> HVAC_MODE_OFF" and "dict_contains HVAC_MODE_REVERSE_LOOKUP m"
  shows "\<exists>k. dict_getitem HVAC_MODE_REVERSE_LOOKUP m = Inr k \<and>
    async_set_hvac_mode w self m =
      ((if hvac_mode w self = Some HVAC_MODE_OFF then [Call_power True] else [])
         @ [Call_set_op_mode k], None) \<and>
    (is_on (api_state w' self) \<and> operation_mode (api_state w' self) = Some k
       \<longrightarrow> hvac_mode w' self = Some m)"
proof -
  from assms(2) obtain k where k: "dict_get HVAC_MODE_REVERSE_LOOKUP m = Some k"
    by (auto simp: dict_contains_get)
  then have inv: "dict_get HVAC_MODE_LOOKUP k = Some m"
    by (simp only: lookup_get_iff reverse_get_iff)
  have "dict_getitem HVAC_MODE_REVERSE_LOOKUP m = Inr k"
    using k by (simp add: dict_getitem_Inr)
  moreover have "async_set_hvac_mode w self m =
      ((if hvac_mode w self = Some HVAC_MODE_OFF then [Call_power True] else [])
         @ [Call_set_op_mode k], None)"
    using assms(1) k by (simp add: async_set_hvac_mode_def)
  moreover have "is_on (api_state w' self) \<and> operation_mode (api_state w' self) = Some k
       \<longrightarrow> hvac_mode w' self = Some m"
    using inv by (simp add: hvac_mode_def)
  ultimately show ?thesis by blast
qed

theorem mode_round_trip_witness:
  "''dry'' \<noteq> HVAC_MODE_OFF \<and> dict_contains HVAC_MODE_REVERSE_LOOKUP ''dry'' \<and>
   dict_getitem HVAC_MODE_REVERSE_LOOKUP ''dry'' = Inr ''DRY'' \<and>
   async_set_hvac_mode example_world example_self ''dry'' =
     ([Call_set_op_mode ''DRY''], None) \<and>
   hvac_mode
     (report_status example_world 0 (example_status\<lparr>operation_mode := Some ''DRY''\<rparr>))
     example_self = Some ''dry''"
proof -
  have h1: "''dry'' \<noteq> HVAC_MODE_OFF" by (simp add: hvac_mode_consts)
  have h2: "dict_contains HVAC_MODE_REVERSE_LOOKUP ''dry''"
    by (simp add: reverse_items hvac_mode_consts)
  show ?thesis
    using h1 h2 mode_round_trip [OF h1 h2, of example_world example_self
      "report_status example_world 0 (example_status\<lparr>operation_mode := Some ''DRY''\<rparr>)"]
    by (simp add: example_hvac_mode dict_getitem_def reverse_items hvac_mode_consts)
qed

text \<open>
  C4. \<open>hvac_mode\<close> returns \<^verbatim>\<open>HVAC_MODE_OFF\<close> whenever the status says the device is not
  on or its operation mode is \<^verbatim>\<open>None\<close>. When the device is on and its operation mode is
  a name that is not a key of the forward table, \<open>hvac_mode\<close> returns \<^verbatim>\<open>None\<close>, the
  default of \<^verbatim>\<open>dict.get\<close>, and not \<^verbatim>\<open>HVAC_MODE_OFF\<close>.
\<close>

theorem hvac_mode_off_or_none:
  "(\<not> is_on (api_state w self) \<or> operation_mode (api_state w self) = None
      \<longrightarrow> hvac_mode w self = Some HVAC_MODE_OFF) \<and>
   (is_on (api_state w self) \<and> operation_mode (api_state w self) = Some k \<and>
    \<not> dict_contains HVAC_MODE_LOOKUP k
      \<longrightarrow> hvac_mode w self = None \<and> hvac_mode w self \<noteq> Some HVAC_MODE_OFF)"
  by (auto simp: hvac_mode_def dict_contains_get)

theorem hvac_mode_off_or_none_witness:
  "\<not> is_on (api_state (report_status example_world 0 (example_status\<lparr>is_on := False\<rparr>))
       example_self) \<and>
   hvac_mode (report_status example_world 0 (example_status\<lparr>is_on := False\<rparr>)) example_self
     = Some ''off'' \<and>
   is_on (api_state
     (report_status example_world 0 (example_status\<lparr>operation_mode := Some ''AIRCLEAN''\<rparr>))
     example_self) \<and>
   operation_mode (api_state
     (report_status example_world 0 (example_status\<lparr>operation_mode := Some ''AIRCLEAN''\<rparr>))
     example_self) = Some ''AIRCLEAN'' \<and>
   \<not> dict_contains HVAC_MODE_LOOKUP ''AIRCLEAN'' \<and>
   hvac_mode
     (report_status example_world 0 (example_status\<lparr>operation_mode := Some ''AIRCLEAN''\<rparr>))
     example_self = None"
proof -
  have absent: "\<not> dict_contains HVAC_MODE_LOOKUP ''AIRCLEAN''"
    by (simp add: lookup_items)
  show ?thesis
    using absent
      hvac_mode_off_or_none [of "report_status example_world 0 (example_status\<lparr>is_on := False\<rparr>)"
        example_self "''AIRCLEAN''"]
      hvac_mode_off_or_none [of
        "report_status example_world 0 (example_status\<lparr>operation_mode := Some ''AIRCLEAN''\<rparr>)"
        example_self "''AIRCLEAN''"]
    by (simp add: hvac_mode_consts)
qed

text \<open>
  C5. \<open>async_set_hvac_mode\<close> raises if and only if its argument is neither
  \<^verbatim>\<open>HVAC_MODE_OFF\<close> nor a key of the reverse table, that is, none of the seven platform
  modes; what it raises is a \<^verbatim>\<open>ValueError\<close>, and it has then issued no call on the
  device.
\<close>

theorem set_hvac_mode_raises_iff:
  "(snd (async_set_hvac_mode w self m) \<noteq> None \<longleftrightarrow>
      m \<noteq> HVAC_MODE_OFF \<and> \<not> dict_contains HVAC_MODE_REVERSE_LOOKUP m) \<and>
   (snd (async_set_hvac_mode w self m) \<noteq> None \<longleftrightarrow>
      m \<notin> set [HVAC_MODE_OFF, HVAC_MODE_AUTO, HVAC_MODE_HEAT, HVAC_MODE_DRY,
                 HVAC_MODE_COOL, HVAC_MODE_FAN_ONLY, HVAC_MODE_HEAT_COOL]) \<and>
   (snd (async_set_hvac_mode w self m) \<noteq> None \<longrightarrow>
      async_set_hvac_mode w self m =
        ([], Some (ValueError (''Invalid hvac_mode ['' @ m @ '']''))))"
proof -
  have a: "snd (async_set_hvac_mode w self m) \<noteq> None \<longleftrightarrow>
      m \<noteq> HVAC_MODE_OFF \<and> dict_get HVAC_MODE_REVERSE_LOOKUP m = None"
    by (simp add: async_set_hvac_mode_def split: option.splits)
  have b: "snd (async_set_hvac_mode w self m) \<noteq> None \<longrightarrow>
      async_set_hvac_mode w self m =
        ([], Some (ValueError (''Invalid hvac_mode ['' @ m @ '']'')))"
    by (simp add: async_set_hvac_mode_def split: option.splits)
  show ?thesis
    using a b by (simp add: dict_contains_get reverse_None_iff)
qed

theorem set_hvac_mode_raises_iff_witness:
  "snd (async_set_hvac_mode example_world example_self ''eco'') \<noteq> None \<and>
   ''eco'' \<noteq> HVAC_MODE_OFF \<and> \<not> dict_contains HVAC_MODE_REVERSE_LOOKUP ''eco'' \<and>
   async_set_hvac_mode example_world example_self ''eco'' =
     ([], Some (ValueError ''Invalid hvac_mode [eco]''))"
  using set_hvac_mode_raises_iff [of example_world example_self "''eco''"]
  by (simp add: reverse_items hvac_mode_consts)

section \<open>Readers of the device status\<close>

text \<open>
  C6. \<open>current_temperature\<close>, \<open>target_temperature\<close> and \<open>fan_mode\<close> are projections
  of the status the \<^verbatim>\<open>LGEDevice\<close> holds at the time of the read: whatever the world was
  before, once the device has reported the status \<open>s\<close> they return the current
  temperature, the target temperature and the fan speed of \<open>s\<close>, so that the same
  adapter reads different values after two reports that differ in them.
\<close>

theorem readers_read_through:
  "current_temperature w self = current_temp (state (lge_devices w (self_api self))) \<and>
   target_temperature w self = target_temp (state (lge_devices w (self_api self))) \<and>
   fan_mode w self = fan_speed (state (lge_devices w (self_api self))) \<and>
   current_temperature (report_status w (self_api self) s) self = current_temp s \<and>
   target_temperature (report_status w (self_api self) s) self = target_temp s \<and>
   fan_mode (report_status w (self_api self) s) self = fan_speed s \<and>
   (current_temp s \<noteq> current_temp s' \<longrightarrow>
      current_temperature (report_status w (self_api self) s) self \<noteq>
      current_temperature (report_status w (self_api self) s') self) \<and>
   (target_temp s \<noteq> target_temp s' \<longrightarrow>
      target_temperature (report_status w (self_api self) s) self \<noteq>
      target_temperature (report_status w (self_api self) s') self) \<and>
   (fan_speed s \<noteq> fan_speed s' \<longrightarrow>
      fan_mode (report_status w (self_api self) s) self \<noteq>
      fan_mode (report_status w (self_api self) s') self)"
  by (simp add: current_temperature_def target_temperature_def fan_mode_def)
    (simp add: api_state_def)

theorem readers_read_through_witness:
  "current_temperature example_world example_self = 26 \<and>
   current_temp (example_status\<lparr>current_temp := 27\<rparr>) \<noteq> current_temp example_status \<and>
   current_temperature
     (report_status example_world 0 (example_status\<lparr>current_temp := 27\<rparr>)) example_self = 27 \<and>
   current_temperature
     (report_status example_world 0 (example_status\<lparr>current_temp := 27\<rparr>)) example_self \<noteq>
   current_temperature (report_status example_world 0 example_status) example_self"
  using readers_read_through [of example_world example_self
      "example_status\<lparr>current_temp := 27\<rparr>" example_status]
  by (simp add: example_world_def)

section \<open>Calls issued on the device\<close>

text \<open>
  C7. \<open>async_set_hvac_mode\<close> with \<^verbatim>\<open>HVAC_MODE_OFF\<close> calls \<^verbatim>\<open>power(False)\<close> and nothing
  else. With any other mode \<open>m\<close> that the reverse table maps to \<open>k\<close>, it calls
  \<^verbatim>\<open>power(True)\<close> and then \<^verbatim>\<open>set_op_mode(k)\<close> when \<open>hvac_mode\<close> is
  \<^verbatim>\<open>HVAC_MODE_OFF\<close> at the time of the call, and \<^verbatim>\<open>set_op_mode(k)\<close> alone when it is
  not.
\<close>

theorem set_hvac_mode_calls:
  "async_set_hvac_mode w self HVAC_MODE_OFF = ([Call_power False], None) \<and>
   (m \<noteq> HVAC_MODE_OFF \<and> dict_get HVAC_MODE_REVERSE_LOOKUP m = Some k \<and>
    hvac_mode w self = Some HVAC_MODE_OFF
      \<longrightarrow> async_set_hvac_mode w self m = ([Call_power True, Call_set_op_mode k], None)) \<and>
   (m \<noteq> HVAC_MODE_OFF \<and> dict_get HVAC_MODE_REVERSE_LOOKUP m = Some k \<and>
    hvac_mode w self \<noteq> Some HVAC_MODE_OFF
      \<longrightarrow> async_set_hvac_mode w self m = ([Call_set_op_mode k], None))"
  by (simp add: async_set_hvac_mode_def)

theorem set_hvac_mode_calls_witness:
  "async_set_hvac_mode example_world example_self HVAC_MODE_OFF = ([Call_power False], None) \<and>
   ''heat'' \<noteq> HVAC_MODE_OFF \<and> dict_get HVAC_MODE_REVERSE_LOOKUP ''heat'' = Some ''HEAT'' \<and>
   hvac_mode (report_status example_world 0 (example_status\<lparr>is_on := False\<rparr>)) example_self
     = Some HVAC_MODE_OFF \<and>
   async_set_hvac_mode (report_status example_world 0 (example_status\<lparr>is_on := False\<rparr>))
     example_self ''heat'' = ([Call_power True, Call_set_op_mode ''HEAT''], None) \<and>
   hvac_mode example_world example_self \<noteq> Some HVAC_MODE_OFF \<and>
   async_set_hvac_mode example_world example_self ''heat'' = ([Call_set_op_mode ''HEAT''], None)"
proof -
  have k: "dict_get HVAC_MODE_REVERSE_LOOKUP ''heat'' = Some ''HEAT''"
    by (simp add: reverse_items hvac_mode_consts)
  have off: "hvac_mode (report_status example_world 0 (example_status\<lparr>is_on := False\<rparr>))
      example_self = Some HVAC_MODE_OFF"
    by (simp add: hvac_mode_def)
  show ?thesis
    using k off
      set_hvac_mode_calls [of "report_status example_world 0 (example_status\<lparr>is_on := False\<rparr>)"
        example_self "''heat''" "''HEAT''"]
      set_hvac_mode_calls [of example_world example_self "''heat''" "''HEAT''"]
    by (simp add: example_hvac_mode hvac_mode_consts)
qed

text \<open>
  C8. \<open>async_set_temperature\<close> issues exactly one call, \<^verbatim>\<open>set_target_temp\<close>, and no
  exception: with the value of the keyword argument \<^verbatim>\<open>temperature\<close> when the call has
  one, and otherwise with \<open>target_temperature\<close>, the target temperature of the status
  the device holds.
\<close>

theorem set_temperature_calls:
  "(kwargs ''temperature'' = Some t
      \<longrightarrow> async_set_temperature w self kwargs = ([Call_set_target_temp t], None)) \<and>
   (kwargs ''temperature'' = None
      \<longrightarrow> async_set_temperature w self kwargs =
           ([Call_set_target_temp (target_temperature w self)], None)) \<and>
   target_temperature w self = target_temp (state (lge_devices w (self_api self))) \<and>
   length (fst (async_set_temperature w self kwargs)) = 1 \<and>
   snd (async_set_temperature w self kwargs) = None"
  by (simp add: async_set_temperature_def target_temperature_def api_state_def)

theorem set_temperature_calls_witness:
  "[''temperature'' \<mapsto> 21] ''temperature'' = Some (21::int) \<and>
   async_set_temperature example_world example_self [''temperature'' \<mapsto> 21]
     = ([Call_set_target_temp 21], None) \<and>
   [''hvac_mode'' \<mapsto> 3] ''temperature'' = (None :: int option) \<and>
   async_set_temperature example_world example_self [''hvac_mode'' \<mapsto> 3]
     = ([Call_set_target_temp 24], None)"
  using set_temperature_calls [of "[''temperature'' \<mapsto> 21]" 21 example_world example_self]
    set_temperature_calls [of "[''hvac_mode'' \<mapsto> 3]" 0 example_world example_self]
  by (simp add: example_world_def)

section \<open>Temperature bounds\<close>

text \<open>
  C9. \<open>min_temp\<close> returns the device's \<^verbatim>\<open>target_temperature_min\<close> when that is not
  \<^verbatim>\<open>None\<close> and \<^verbatim>\<open>DEFAULT_MIN_TEMP\<close> otherwise; \<open>max_temp\<close> returns the device's
  \<^verbatim>\<open>target_temperature_max\<close> when that is not \<^verbatim>\<open>None\<close> and \<^verbatim>\<open>DEFAULT_MAX_TEMP\<close>
  otherwise.
\<close>

theorem min_max_temp_default:
  "(target_temperature_min (ac_devices w (self_device self)) = Some t
      \<longrightarrow> min_temp DEFAULT_MIN_TEMP w self = t) \<and>
   (target_temperature_min (ac_devices w (self_device self)) = None
      \<longrightarrow> min_temp DEFAULT_MIN_TEMP w self = DEFAULT_MIN_TEMP) \<and>
   (target_temperature_max (ac_devices w (self_device self)) = Some t'
      \<longrightarrow> max_temp DEFAULT_MAX_TEMP w self = t') \<and>
   (target_temperature_max (ac_devices w (self_device self)) = None
      \<longrightarrow> max_temp DEFAULT_MAX_TEMP w self = DEFAULT_MAX_TEMP)"
  by (simp add: min_temp_def max_temp_def)

theorem min_max_temp_default_witness:
  "target_temperature_min (ac_devices example_world (self_device example_self)) = Some 18 \<and>
   min_temp 7 example_world example_self = 18 \<and>
   target_temperature_max (ac_devices example_world (self_device example_self)) = None \<and>
   max_temp 35 example_world example_self = 35"
  using min_max_temp_default [of example_world example_self 18 7 0 35]
  by (simp add: example_world_def)

section \<open>The adapter keeps no state of its own\<close>

text \<open>
  The constructor, run on an object with any attributes, leaves the adapter that
  \<open>LGEACClimate_init\<close> describes; an assignment step does change the object; and the
  value each getter computes as a method is the value of the reader of the same name
  used in the sections above.
\<close>

lemmas attr_steps =
  getattr_api_def getattr_device_def getattr_name_def
  setattr_api_def setattr_device_def setattr_name_def

lemma run_state_update [simp]: "run_state (State_Monad.update f) s = ((), f s)"
  by (simp add: State_Monad.update_def)

lemma init_method_result:
  "run_state (init_method w device ac_device) blank =
     ((), LGEACClimate_init w device ac_device)"
  by (cases blank) (simp add: init_method_def attr_steps LGEACClimate_init_def)

lemma fget_values:
  "fst (run_state (hvac_mode_fget w) self) = hvac_mode w self"
  "fst (run_state (hvac_modes_fget w) self) = hvac_modes w self"
  "fst (run_state (current_temperature_fget w) self) = current_temperature w self"
  "fst (run_state (target_temperature_fget w) self) = target_temperature w self"
  "fst (run_state (fan_mode_fget w) self) = fan_mode w self"
  "fst (run_state (fan_modes_fget w) self) = fan_modes w self"
  "fst (run_state (min_temp_fget dmin w) self) = min_temp dmin w self"
  "fst (run_state (max_temp_fget dmax w) self) = max_temp dmax w self"
  "fst (run_state (available_fget w) self) = available w self"
  "fst (run_state (unique_id_fget w) self) = unique_id w self"
  "fst (run_state (name_fget w) self) = name w self"
  by (simp_all add: attr_steps hvac_mode_fget_def hvac_modes_fget_def
      current_temperature_fget_def target_temperature_fget_def fan_mode_fget_def
      fan_modes_fget_def min_temp_fget_def max_temp_fget_def available_fget_def
      unique_id_fget_def name_fget_def
      hvac_mode_def hvac_modes_def current_temperature_def target_temperature_def
      fan_mode_def fan_modes_def min_temp_def max_temp_def available_def unique_id_def
      name_def api_state_def Let_def split: option.splits)

lemma setattr_name_changes:
  "snd (run_state (setattr_name ''x'') example_self) \<noteq> example_self"
  by (simp add: setattr_name_def example_self_def LGEACClimate_init_def example_world_def)

text \<open>
  C10. Reading any of the properties \<open>hvac_mode\<close>, \<open>hvac_modes\<close>,
  \<open>current_temperature\<close>, \<open>target_temperature\<close>, \<open>fan_mode\<close>, \<open>fan_modes\<close>,
  \<open>min_temp\<close>, \<open>max_temp\<close>, \<open>available\<close>, \<open>unique_id\<close> and \<open>name\<close> leaves the
  adapter object as it was: run as a method on an adapter with any attributes \<^verbatim>\<open>_api\<close>,
  \<^verbatim>\<open>_device\<close> and \<^verbatim>\<open>_name\<close>, in any world, each getter ends with the same three
  attributes it started with.
\<close>

theorem property_reads_keep_fields:
  "snd (run_state (hvac_mode_fget w) self) = self \<and>
   snd (run_state (hvac_modes_fget w) self) = self \<and>
   snd (run_state (current_temperature_fget w) self) = self \<and>
   snd (run_state (target_temperature_fget w) self) = self \<and>
   snd (run_state (fan_mode_fget w) self) = self \<and>
   snd (run_state (fan_modes_fget w) self) = self \<and>
   snd (run_state (min_temp_fget dmin w) self) = self \<and>
   snd (run_state (max_temp_fget dmax w) self) = self \<and>
   snd (run_state (available_fget w) self) = self \<and>
   snd (run_state (unique_id_fget w) self) = self \<and>
   snd (run_state (name_fget w) self) = self"
proof (intro conjI)
  show "snd (run_state (hvac_mode_fget w) self) = self"
    by (simp add: hvac_mode_fget_def getattr_api_def Let_def)
  show "snd (run_state (hvac_modes_fget w) self) = self"
    by (simp add: hvac_modes_fget_def getattr_device_def)
  show "snd (run_state (current_temperature_fget w) self) = self"
    by (simp add: current_temperature_fget_def getattr_api_def)
  show "snd (run_state (target_temperature_fget w) self) = self"
    by (simp add: target_temperature_fget_def getattr_api_def)
  show "snd (run_state (fan_mode_fget w) self) = self"
    by (simp add: fan_mode_fget_def getattr_api_def)
  show "snd (run_state (fan_modes_fget w) self) = self"
    by (simp add: fan_modes_fget_def getattr_device_def)
  show "snd (run_state (min_temp_fget dmin w) self) = self"
    by (simp add: min_temp_fget_def getattr_device_def Let_def split: option.splits)
  show "snd (run_state (max_temp_fget dmax w) self) = self"
    by (simp add: max_temp_fget_def getattr_device_def Let_def split: option.splits)
  show "snd (run_state (available_fget w) self) = self"
    by (simp add: available_fget_def getattr_api_def)
  show "snd (run_state (unique_id_fget w) self) = self"
    by (simp add: unique_id_fget_def getattr_api_def)
  show "snd (run_state (name_fget w) self) = self"
    by (simp add: name_fget_def getattr_name_def)
qed

theorem property_reads_keep_fields_witness:
  "fst (run_state (hvac_mode_fget example_world) example_self) = Some ''cool'' \<and>
   snd (run_state (hvac_mode_fget example_world) example_self) =
     \<lparr>self_api = 0, self_device = 1, self_name = ''Bedroom''\<rparr> \<and>
   fst (run_state (min_temp_fget 7 example_world) example_self) = 18 \<and>
   snd (run_state (min_temp_fget 7 example_world) example_self) =
     \<lparr>self_api = 0, self_device = 1, self_name = ''Bedroom''\<rparr> \<and>
   snd (run_state (name_fget example_world) example_self) =
     \<lparr>self_api = 0, self_device = 1, self_name = ''Bedroom''\<rparr>"
proof -
  have adapter: "example_self = \<lparr>self_api = 0, self_device = 1, self_name = ''Bedroom''\<rparr>"
    by (simp add: example_self_def LGEACClimate_init_def example_world_def)
  have mode: "fst (run_state (hvac_mode_fget example_world) example_self) = Some ''cool''"
    by (simp add: fget_values example_hvac_mode)
  have low: "fst (run_state (min_temp_fget 7 example_world) example_self) = 18"
    by (simp add: fget_values min_temp_def example_world_def)
  show ?thesis
    using mode low adapter property_reads_keep_fields [of example_world example_self 7 35]
    by simp
qed

end
